theory Spec2Isabelle
  imports Main "HOL-Library.Word"
begin

section \<open>The prompt-lint hook (assets/hooks/prompt-lint.py)\<close>

text \<open>
  The hook is a fifteen-line Python script. It reads all of standard input as text, decodes
  it with \<^verbatim>\<open>json.loads\<close>, takes \<^verbatim>\<open>obj.get("prompt","")\<close> under a
  \<^verbatim>\<open>try/except Exception\<close> whose handler sets the prompt to the empty string, and
  then either writes a reminder to standard error and exits with status 2, or writes a
  guidance sentence to standard output and exits with status 0.

  The model follows the script line by line. Python values that \<^verbatim>\<open>json.loads\<close>
  can return are a datatype; a Python exception is a value of a sum type; the three streams
  of the process are a record that every statement passes on. Standard input holds bytes;
  the text layer of \<^verbatim>\<open>sys.stdin\<close> turns them into text or raises. Text is
  \<^typ>\<open>string\<close>, a list of the code points below 256.
\<close>

subsection \<open>Python values and exceptions\<close>

text \<open>
  What \<^verbatim>\<open>json.loads\<close> returns: \<^verbatim>\<open>None\<close>, a \<^verbatim>\<open>bool\<close>, an
  \<^verbatim>\<open>int\<close>, a \<^verbatim>\<open>float\<close>, a \<^verbatim>\<open>str\<close>, a \<^verbatim>\<open>list\<close> or a
  \<^verbatim>\<open>dict\<close> with string keys. A float is its mantissa and binary exponent, or one of
  the three special values the decoder accepts. A dict is an association list in which the
  first binding of a key is the one that counts.
\<close>

datatype pyfloat = Finite int int | PosInf | NegInf | NaN

datatype json =
    JNull
  | JBool bool
  | JInt int
  | JFloat pyfloat
  | JString string
  | JArray "json list"
  | JObject "(string \<times> json) list"

text \<open>
  The exception classes the script can meet. Each of them derives from
  \<^verbatim>\<open>Exception\<close>, so the handler \<^verbatim>\<open>except Exception\<close> catches every value
  of this type that is raised inside the \<^verbatim>\<open>try\<close>. The decoder raises
  \<^verbatim>\<open>JSONDecodeError\<close> on text that is not JSON, \<^verbatim>\<open>ValueError\<close> on an
  integer literal longer than the interpreter's digit limit, and
  \<^verbatim>\<open>RecursionError\<close> on nesting deeper than the recursion limit; the text layer of
  standard input raises \<^verbatim>\<open>UnicodeDecodeError\<close>.
\<close>

datatype exn =
    UnicodeDecodeError
  | JSONDecodeError
  | ValueError
  | RecursionError
  | AttributeError
  | TypeError

subsection \<open>The built-in operations the script calls\<close>

text \<open>
  \<^verbatim>\<open>obj.get("prompt","")\<close>: only a dict has the method \<^verbatim>\<open>get\<close>; on every
  other value the attribute lookup raises \<^verbatim>\<open>AttributeError\<close>.
\<close>

fun get_prompt :: "json \<Rightarrow> exn + json" where
  "get_prompt (JObject kvs) =
     Inr (case map_of kvs ''prompt'' of None \<Rightarrow> JString [] | Some v \<Rightarrow> v)"
| "get_prompt JNull = Inl AttributeError"
| "get_prompt (JBool b) = Inl AttributeError"
| "get_prompt (JInt i) = Inl AttributeError"
| "get_prompt (JFloat f) = Inl AttributeError"
| "get_prompt (JString s) = Inl AttributeError"
| "get_prompt (JArray xs) = Inl AttributeError"

text \<open>
  \<^verbatim>\<open>len(prompt)\<close>: defined on strings, lists and dicts (the number of keys);
  \<^verbatim>\<open>TypeError\<close> on \<^verbatim>\<open>None\<close>, booleans and numbers.
\<close>

fun py_len :: "json \<Rightarrow> exn + nat" where
  "py_len (JString s) = Inr (length s)"
| "py_len (JArray xs) = Inr (length xs)"
| "py_len (JObject kvs) = Inr (length (remdups (map fst kvs)))"
| "py_len JNull = Inl TypeError"
| "py_len (JBool b) = Inl TypeError"
| "py_len (JInt i) = Inl TypeError"
| "py_len (JFloat f) = Inl TypeError"

text \<open>
  \<^verbatim>\<open>str.lower\<close> on the code points below 256: the letters A to Z and the
  Latin-1 capitals U+00C0 to U+00DE (the multiplication sign U+00D7 apart) move up by 32;
  every other code point stays.
\<close>

definition lower_char :: "char \<Rightarrow> char" where
  "lower_char c =
     (let n = (of_char c :: nat) in
      if (65 \<le> n \<and> n \<le> 90) \<or> (192 \<le> n \<and> n \<le> 222 \<and> n \<noteq> 215)
      then char_of (n + 32) else c)"

definition lower :: "string \<Rightarrow> string" where
  "lower s = map lower_char s"

text \<open>
  \<^verbatim>\<open>prompt.lower()\<close>: only a string has the method; every other value raises
  \<^verbatim>\<open>AttributeError\<close>.
\<close>

fun py_lower :: "json \<Rightarrow> exn + string" where
  "py_lower (JString s) = Inr (lower s)"
| "py_lower JNull = Inl AttributeError"
| "py_lower (JBool b) = Inl AttributeError"
| "py_lower (JInt i) = Inl AttributeError"
| "py_lower (JFloat f) = Inl AttributeError"
| "py_lower (JArray xs) = Inl AttributeError"
| "py_lower (JObject kvs) = Inl AttributeError"

text \<open>
  \<^verbatim>\<open>sub in s\<close> on strings: \<open>sub\<close> occurs in \<open>s\<close> as a contiguous run.
\<close>

fun starts_with :: "string \<Rightarrow> string \<Rightarrow> bool" where
  "starts_with [] s = True"
| "starts_with (a # sub) [] = False"
| "starts_with (a # sub) (c # s) = (a = c \<and> starts_with sub s)"

fun str_contains :: "string \<Rightarrow> string \<Rightarrow> bool" where
  "str_contains sub [] = (sub = [])"
| "str_contains sub (c # s) = (starts_with sub (c # s) \<or> str_contains sub s)"

subsection \<open>The process: three streams and an exit\<close>

type_synonym byte = "8 word"

record proc =
  stdin :: "byte list"
  stdout :: string
  stderr :: string

text \<open>
  How the run ends: \<^verbatim>\<open>sys.exit(n)\<close>, or an exception nobody caught. In the second
  case the interpreter, not the script, prints a traceback and the process status is 1.
\<close>

datatype outcome = Exit nat | Uncaught exn

fun exit_status :: "outcome \<Rightarrow> nat" where
  "exit_status (Exit n) = n"
| "exit_status (Uncaught e) = 1"

text \<open>
  \<^verbatim>\<open>sys.stdin.read()\<close> takes every pending byte, which leaves the stream drained,
  and decodes the bytes with the codec of the stream: the encoding and the error handler
  the interpreter chose from the locale and the environment. The codec is a parameter, a
  function from the bytes to the text or to the exception it raises (with the strict
  handler, \<^verbatim>\<open>UnicodeDecodeError\<close> on bytes that are not text in the encoding).
\<close>

definition stdin_read ::
  "(byte list \<Rightarrow> exn + string) \<Rightarrow> 'a proc_scheme \<Rightarrow> (exn + string) \<times> 'a proc_scheme" where
  "stdin_read stdin_codec w = (stdin_codec (stdin w), w\<lparr>stdin := []\<rparr>)"

definition stdout_write :: "string \<Rightarrow> 'a proc_scheme \<Rightarrow> 'a proc_scheme" where
  "stdout_write s w = w\<lparr>stdout := stdout w @ s\<rparr>"

definition stderr_write :: "string \<Rightarrow> 'a proc_scheme \<Rightarrow> 'a proc_scheme" where
  "stderr_write s w = w\<lparr>stderr := stderr w @ s\<rparr>"

subsection \<open>The script\<close>

text \<open>The two literals of lines 11 and 14; the first ends with a line feed.\<close>

definition reminder :: string where
  "reminder = ''Please include acceptance criteria in your prompt (exit=2 to block).'' @ [CHR 0x0A]"

definition guidance :: string where
  "guidance = ''Consider: objective, constraints, acceptance criteria, and test plan.''"

text \<open>
  Lines 4 to 8. The decoder \<^verbatim>\<open>json.loads\<close> is the standard library's: it is a
  parameter, a function from the text to a decoded value or a raised exception. Whatever
  is raised inside the \<^verbatim>\<open>try\<close>, by the decoder or by \<^verbatim>\<open>obj.get\<close>, the
  handler replaces by the empty string.
\<close>

definition try_prompt :: "(string \<Rightarrow> exn + json) \<Rightarrow> string \<Rightarrow> json" where
  "try_prompt json_loads data =
     (case json_loads data of
        Inl e \<Rightarrow> JString []
      | Inr obj \<Rightarrow>
          (case get_prompt obj of
             Inl e \<Rightarrow> JString []
           | Inr prompt \<Rightarrow> prompt))"

text \<open>
  The condition of line 10,
  \<^verbatim>\<open>len(prompt) > 0 and "acceptance" not in prompt.lower()\<close>. The operator
  \<^verbatim>\<open>and\<close> evaluates its right operand only when the left one is true. The condition
  is outside the \<^verbatim>\<open>try\<close>: what it raises is not caught.
\<close>

definition blocked :: "json \<Rightarrow> exn + bool" where
  "blocked prompt =
     (case py_len prompt of
        Inl e \<Rightarrow> Inl e
      | Inr n \<Rightarrow>
          if 0 < n then
            (case py_lower prompt of
               Inl e \<Rightarrow> Inl e
             | Inr l \<Rightarrow> Inr (\<not> str_contains ''acceptance'' l))
          else Inr False)"

text \<open>
  The module body, lines 3 to 15. The read of line 3 is before the \<^verbatim>\<open>try\<close>:
  what it raises is not caught.
\<close>

definition prompt_lint ::
  "(byte list \<Rightarrow> exn + string) \<Rightarrow> (string \<Rightarrow> exn + json) \<Rightarrow>
     'a proc_scheme \<Rightarrow> outcome \<times> 'a proc_scheme" where
  "prompt_lint stdin_codec json_loads w0 =
     (case stdin_read stdin_codec w0 of
        (Inl e, w1) \<Rightarrow> (Uncaught e, w1)
      | (Inr data, w1) \<Rightarrow>
          (let prompt = try_prompt json_loads data
           in case blocked prompt of
                Inl e \<Rightarrow> (Uncaught e, w1)
              | Inr True \<Rightarrow> (Exit 2, stderr_write reminder w1)
              | Inr False \<Rightarrow> (Exit 0, stdout_write guidance w1)))"

subsection \<open>Sample inputs\<close>

text \<open>
  A codec to instantiate the theorems with: the \<^verbatim>\<open>ascii\<close> encoding with the
  \<^verbatim>\<open>strict\<close> handler. A byte below 128 is the code point of the same number; any
  other byte raises. On the byte strings used below the strict UTF-8 codec of an ordinary
  locale does the same: ASCII bytes decode to themselves, and the byte \<open>0xFF\<close> occurs
  in no UTF-8 text. The theorems themselves hold for every codec.
\<close>

definition ascii_strict :: "byte list \<Rightarrow> exn + string" where
  "ascii_strict bs =
     (if list_all (\<lambda>b. b < 128) bs then Inr (map (\<lambda>b. char_of (unat b)) bs) else Inl UnicodeDecodeError)"

text \<open>The bytes of a text whose code points are all below 128.\<close>

definition bytes_of :: "string \<Rightarrow> byte list" where
  "bytes_of s = map of_char s"

text \<open>Four thousand three hundred digits.\<close>

definition digits :: string where
  "digits = replicate 4300 (CHR ''1'')"

text \<open>
  What \<^verbatim>\<open>json.loads\<close> returns on the sample texts used below to instantiate the
  theorems; every other text counts as undecodable here. The two texts built from
  \<^const>\<open>digits\<close> are JSON objects that hold an integer literal of 4301 digits, one more
  than the default limit of 4300 digits for converting a string to an integer: the decoder
  raises \<^verbatim>\<open>ValueError\<close> on them. The theorems themselves hold for every decoder.
\<close>

definition sample_loads :: "string \<Rightarrow> exn + json" where
  \<open>sample_loads data =
     (if data = ''{"prompt": "Write a function that reverses a string."}''
        then Inr (JObject [(''prompt'', JString ''Write a function that reverses a string.'')])
      else if data = ''{"prompt": "Fix it. ACCEPTANCE CRITERIA: tests pass", "cwd": "/tmp"}''
        then Inr (JObject [(''prompt'', JString ''Fix it. ACCEPTANCE CRITERIA: tests pass''),
                           (''cwd'', JString ''/tmp'')])
      else if data = ''{"prompt": "Fix it. ACCEPTANCE CRITERIA: tests pass"}''
        then Inr (JObject [(''prompt'', JString ''Fix it. ACCEPTANCE CRITERIA: tests pass'')])
      else if data = ''{"prompt": ""}''
        then Inr (JObject [(''prompt'', JString [])])
      else if data = ''{}''
        then Inr (JObject [])
      else if data = ''{"cwd": "/tmp"}''
        then Inr (JObject [(''cwd'', JString ''/tmp'')])
      else if data = ''[1, 2]''
        then Inr (JArray [JInt 1, JInt 2])
      else if data = ''{"prompt": null}''
        then Inr (JObject [(''prompt'', JNull)])
      else if data = ''{"prompt": 5}''
        then Inr (JObject [(''prompt'', JInt 5)])
      else if data = ''{"prompt": ["a"]}''
        then Inr (JObject [(''prompt'', JArray [JString ''a''])])
      else if data = ''{"prompt": []}''
        then Inr (JObject [(''prompt'', JArray [])])
      else if data = ''{"prompt": "hi"}''
        then Inr (JObject [(''prompt'', JString ''hi'')])
      else if data = ''{"n": 1'' @ digits @ '', "prompt": "hi"}''
        then Inl ValueError
      else if data = ''{"prompt":1'' @ digits @ ''}''
        then Inl ValueError
      else Inl JSONDecodeError)\<close>

section \<open>Facts about the built-in operations\<close>

lemma starts_with_iff: "starts_with sub s \<longleftrightarrow> (\<exists>post. s = sub @ post)"
  by (induction sub s rule: starts_with.induct) auto

lemma str_contains_iff: "str_contains sub s \<longleftrightarrow> (\<exists>pre post. s = pre @ sub @ post)"
proof (induction s)
  case Nil
  show ?case by auto
next
  case (Cons c s)
  show ?case
  proof
    assume "str_contains sub (c # s)"
    then consider "starts_with sub (c # s)" | "str_contains sub s" by auto
    then show "\<exists>pre post. c # s = pre @ sub @ post"
    proof cases
      case 1
      then obtain post where "c # s = sub @ post" by (auto simp: starts_with_iff)
      then have "c # s = [] @ sub @ post" by simp
      then show ?thesis by blast
    next
      case 2
      then obtain pre post where "s = pre @ sub @ post" using Cons.IH by auto
      then have "c # s = (c # pre) @ sub @ post" by simp
      then show ?thesis by blast
    qed
  next
    assume "\<exists>pre post. c # s = pre @ sub @ post"
    then obtain pre post where eq: "c # s = pre @ sub @ post" by auto
    show "str_contains sub (c # s)"
    proof (cases pre)
      case Nil
      with eq have "starts_with sub (c # s)" by (auto simp: starts_with_iff)
      then show ?thesis by simp
    next
      case (Cons a pre')
      with eq have "s = pre' @ sub @ post" by simp
      then have "str_contains sub s" using Cons.IH by blast
      then show ?thesis by simp
    qed
  qed
qed

lemma lower_append: "lower (xs @ ys) = lower xs @ lower ys"
  by (simp add: lower_def)

lemma lower_variant_contains:
  assumes "p = pre @ v @ post" and "lower v = marker"
  shows "str_contains marker (lower p)"
  using assms by (auto simp: str_contains_iff lower_append)

section \<open>The script, statement by statement\<close>

lemma unat_of_char: "unat (of_char c :: byte) = of_char c"
proof -
  have "(of_char c :: byte) = of_nat (of_char c)" by (simp add: of_nat_of_char)
  then show ?thesis by (simp add: unat_of_nat)
qed

lemma ascii_strict_bytes_of:
  assumes "list_all (\<lambda>c. (of_char c :: nat) < 128) s"
  shows "ascii_strict (bytes_of s) = Inr s"
proof -
  have w: "(of_char c :: byte) < 128" if "(of_char c :: nat) < 128" for c
    using that by (simp add: word_less_nat_alt unat_of_char)
  from assms have "list_all (\<lambda>b. b < 128) (map of_char s :: byte list)"
    by (induction s) (simp_all add: w)
  moreover have "map (\<lambda>b. char_of (unat b)) (map of_char s :: byte list) = s"
    by (induction s) (simp_all add: unat_of_char)
  ultimately show ?thesis by (simp add: ascii_strict_def bytes_of_def)
qed

text \<open>The module body when the read raises, and when it returns the text.\<close>

lemma prompt_lint_unreadable:
  "stdin_codec (stdin w) = Inl e \<Longrightarrow>
   prompt_lint stdin_codec json_loads w = (Uncaught e, w\<lparr>stdin := []\<rparr>)"
  by (simp add: prompt_lint_def stdin_read_def)

lemma prompt_lint_eq:
  "stdin_codec (stdin w) = Inr data \<Longrightarrow>
   prompt_lint stdin_codec json_loads w =
     (case blocked (try_prompt json_loads data) of
        Inl e \<Rightarrow> (Uncaught e, w\<lparr>stdin := []\<rparr>)
      | Inr b \<Rightarrow>
          if b then (Exit 2, w\<lparr>stdin := [], stderr := stderr w @ reminder\<rparr>)
          else (Exit 0, w\<lparr>stdin := [], stdout := stdout w @ guidance\<rparr>))"
  by (simp add: prompt_lint_def stdin_read_def stderr_write_def stdout_write_def
      split: sum.splits bool.splits)

lemma blocked_string:
  "blocked (JString p) = Inr (0 < length p \<and> \<not> str_contains ''acceptance'' (lower p))"
  by (simp add: blocked_def)

lemma try_prompt_raises: "json_loads data = Inl e \<Longrightarrow> try_prompt json_loads data = JString []"
  by (simp add: try_prompt_def)

lemma try_prompt_object:
  "json_loads data = Inr (JObject kvs) \<Longrightarrow>
   try_prompt json_loads data = (case map_of kvs ''prompt'' of None \<Rightarrow> JString [] | Some v \<Rightarrow> v)"
  by (simp add: try_prompt_def)

lemma try_prompt_not_object:
  "json_loads data = Inr obj \<Longrightarrow> \<forall>kvs. obj \<noteq> JObject kvs \<Longrightarrow>
   try_prompt json_loads data = JString []"
  by (cases obj) (simp_all add: try_prompt_def)

lemma blocked_empty_string: "blocked (JString []) = Inr False"
  by (simp add: blocked_def)

lemma prompt_lint_empty:
  "stdin_codec (stdin w) = Inr data \<Longrightarrow> try_prompt json_loads data = JString [] \<Longrightarrow>
   prompt_lint stdin_codec json_loads w
     = (Exit 0, w\<lparr>stdin := [], stdout := stdout w @ guidance\<rparr>)"
  by (simp add: prompt_lint_eq blocked_empty_string)

text \<open>
  Text on which the decoder raises: the handler absorbs the exception, whatever its class,
  and the run is allowed.
\<close>

lemma decoder_raises_allowed:
  assumes "stdin_codec (stdin w) = Inr data" and "json_loads data = Inl e"
  shows "prompt_lint stdin_codec json_loads w
     = (Exit 0, w\<lparr>stdin := [], stdout := stdout w @ guidance\<rparr>)"
  using assms by (simp add: prompt_lint_empty try_prompt_raises)

lemma keys_nonempty: "0 < length (remdups (map fst (kv # kvs)))"
  unfolding length_greater_0_conv remdups_eq_nil_iff by simp

lemma blocked_not_string:
  assumes "\<forall>s. v \<noteq> JString s"
  shows "blocked v =
     (if v = JArray [] \<or> v = JObject [] then Inr False
      else if (\<exists>xs. v = JArray xs) \<or> (\<exists>kvs. v = JObject kvs) then Inl AttributeError
      else Inl TypeError)"
proof (cases v)
  case (JString s)
  with assms show ?thesis by simp
next
  case (JArray xs)
  then show ?thesis by (cases xs) (simp_all add: blocked_def)
next
  case (JObject kvs)
  show ?thesis
  proof (cases kvs)
    case Nil
    with JObject show ?thesis by (simp add: blocked_def)
  next
    case (Cons kv kvs')
    have "0 < length (remdups (map fst (kv # kvs')))" by (rule keys_nonempty)
    with JObject Cons show ?thesis by (simp add: blocked_def del: remdups.simps)
  qed
qed (simp_all add: blocked_def)

text \<open>
  The run as an outcome and the text appended to each stream, both read off the result of
  lines 3 to 10: the exception that escapes, or the truth value of the condition.
\<close>

lemma prompt_lint_effects:
  "prompt_lint stdin_codec json_loads w =
     (let r = (case stdin_codec (stdin w) of
                 Inl e \<Rightarrow> Inl e
               | Inr data \<Rightarrow> blocked (try_prompt json_loads data))
      in (case r of Inl e \<Rightarrow> Uncaught e | Inr b \<Rightarrow> if b then Exit 2 else Exit 0,
          w\<lparr>stdin := [],
            stdout := stdout w @ (if r = Inr False then guidance else []),
            stderr := stderr w @ (if r = Inr True then reminder else [])\<rparr>))"
proof (cases "stdin_codec (stdin w)")
  case (Inl e)
  then show ?thesis by (simp add: prompt_lint_unreadable)
next
  case (Inr data)
  then show ?thesis by (simp add: prompt_lint_eq split: sum.splits)
qed

text \<open>
  The process status is 0, 1 or 2, and it is 1 exactly when the read of line 3 or the
  condition of line 10 raises.
\<close>

lemma exit_status_cases:
  "exit_status (fst (prompt_lint stdin_codec json_loads w)) \<in> {0, 1, 2}
   \<and> (exit_status (fst (prompt_lint stdin_codec json_loads w)) = 1
        \<longleftrightarrow> (\<exists>e. stdin_codec (stdin w) = Inl e)
          \<or> (\<exists>data e. stdin_codec (stdin w) = Inr data
                \<and> blocked (try_prompt json_loads data) = Inl e))"
proof (cases "stdin_codec (stdin w)")
  case (Inl e)
  then show ?thesis by (simp add: prompt_lint_unreadable)
next
  case (Inr data)
  then show ?thesis by (simp add: prompt_lint_eq split: sum.splits)
qed

text \<open>
  The frame of a run: the rest of the process state is untouched, standard input is
  drained, at most one of the two output streams grows, and it grows by the one literal
  that belongs to the exit.
\<close>

lemma streams_frame:
  "proc.more (snd (prompt_lint stdin_codec json_loads w)) = proc.more w
   \<and> stdin (snd (prompt_lint stdin_codec json_loads w)) = []
   \<and> (stdout (snd (prompt_lint stdin_codec json_loads w)) = stdout w
        \<or> stderr (snd (prompt_lint stdin_codec json_loads w)) = stderr w)
   \<and> (fst (prompt_lint stdin_codec json_loads w) = Exit 2 \<longrightarrow>
         stdout (snd (prompt_lint stdin_codec json_loads w)) = stdout w
         \<and> stderr (snd (prompt_lint stdin_codec json_loads w)) = stderr w @ reminder)
   \<and> (fst (prompt_lint stdin_codec json_loads w) = Exit 0 \<longrightarrow>
         stderr (snd (prompt_lint stdin_codec json_loads w)) = stderr w
         \<and> stdout (snd (prompt_lint stdin_codec json_loads w)) = stdout w @ guidance)"
proof (cases "stdin_codec (stdin w)")
  case (Inl e)
  then show ?thesis by (simp add: prompt_lint_unreadable)
next
  case (Inr data)
  then show ?thesis by (simp add: prompt_lint_eq split: sum.splits)
qed

section \<open>The verdict\<close>

text \<open>
  C1. When the prompt the script extracts is a string \<open>p\<close>, the run is blocked (exit
  status 2, the reminder appended to standard error) exactly when \<open>p\<close> is not empty
  and its lowercase form does not contain \<open>acceptance\<close>; otherwise it is allowed
  (exit status 0, the guidance appended to standard output). In particular a prompt that
  holds the marker in any letter case, also inside a longer word, is allowed.
\<close>

theorem verdict_rule:
  assumes "stdin_codec (stdin w) = Inr data"
    and "try_prompt json_loads data = JString p"
  shows "prompt_lint stdin_codec json_loads w =
           (if 0 < length p \<and> \<not> str_contains ''acceptance'' (lower p)
            then (Exit 2, w\<lparr>stdin := [], stderr := stderr w @ reminder\<rparr>)
            else (Exit 0, w\<lparr>stdin := [], stdout := stdout w @ guidance\<rparr>))
       \<and> (exit_status (fst (prompt_lint stdin_codec json_loads w)) = 2
            \<longleftrightarrow> 0 < length p \<and> \<not> str_contains ''acceptance'' (lower p))
       \<and> (exit_status (fst (prompt_lint stdin_codec json_loads w)) = 0
            \<longleftrightarrow> p = [] \<or> str_contains ''acceptance'' (lower p))
       \<and> (\<forall>pre v post. p = pre @ v @ post \<and> lower v = ''acceptance'' \<longrightarrow>
             prompt_lint stdin_codec json_loads w =
               (Exit 0, w\<lparr>stdin := [], stdout := stdout w @ guidance\<rparr>))"
proof -
  let ?c = "0 < length p \<and> \<not> str_contains ''acceptance'' (lower p)"
  have run: "prompt_lint stdin_codec json_loads w =
           (if ?c then (Exit 2, w\<lparr>stdin := [], stderr := stderr w @ reminder\<rparr>)
            else (Exit 0, w\<lparr>stdin := [], stdout := stdout w @ guidance\<rparr>))"
    using assms by (simp add: prompt_lint_eq blocked_string)
  have two: "exit_status (fst (prompt_lint stdin_codec json_loads w)) = 2 \<longleftrightarrow> ?c"
    by (simp add: run)
  have zero: "exit_status (fst (prompt_lint stdin_codec json_loads w)) = 0
                \<longleftrightarrow> p = [] \<or> str_contains ''acceptance'' (lower p)"
    by (simp add: run)
  have variant: "prompt_lint stdin_codec json_loads w =
               (Exit 0, w\<lparr>stdin := [], stdout := stdout w @ guidance\<rparr>)"
    if "p = pre @ v @ post \<and> lower v = ''acceptance''" for pre v post
  proof -
    from that have "str_contains ''acceptance'' (lower p)"
      by (blast intro: lower_variant_contains)
    then show ?thesis by (simp add: run)
  qed
  from run two zero variant show ?thesis by blast
qed

theorem verdict_rule_witness:
  \<open>ascii_strict (bytes_of ''{"prompt": "Write a function that reverses a string."}'')
      = Inr ''{"prompt": "Write a function that reverses a string."}''
   \<and> try_prompt sample_loads ''{"prompt": "Write a function that reverses a string."}''
      = JString ''Write a function that reverses a string.''
   \<and> prompt_lint ascii_strict sample_loads
        \<lparr>stdin = bytes_of ''{"prompt": "Write a function that reverses a string."}'',
         stdout = [], stderr = []\<rparr>
      = (Exit 2, \<lparr>stdin = [], stdout = [], stderr = reminder\<rparr>)
   \<and> ascii_strict (bytes_of ''{"prompt": "Fix it. ACCEPTANCE CRITERIA: tests pass"}'')
      = Inr ''{"prompt": "Fix it. ACCEPTANCE CRITERIA: tests pass"}''
   \<and> try_prompt sample_loads ''{"prompt": "Fix it. ACCEPTANCE CRITERIA: tests pass"}''
      = JString ''Fix it. ACCEPTANCE CRITERIA: tests pass''
   \<and> prompt_lint ascii_strict sample_loads
        \<lparr>stdin = bytes_of ''{"prompt": "Fix it. ACCEPTANCE CRITERIA: tests pass"}'',
         stdout = [], stderr = []\<rparr>
      = (Exit 0, \<lparr>stdin = [], stdout = guidance, stderr = []\<rparr>)\<close>
proof -
  let ?d1 = \<open>''{"prompt": "Write a function that reverses a string."}''\<close>
  let ?p1 = "''Write a function that reverses a string.''"
  let ?d2 = \<open>''{"prompt": "Fix it. ACCEPTANCE CRITERIA: tests pass"}''\<close>
  let ?p2 = "''Fix it. ACCEPTANCE CRITERIA: tests pass''"
  let ?w1 = "\<lparr>stdin = bytes_of ?d1, stdout = [], stderr = []\<rparr>"
  let ?w2 = "\<lparr>stdin = bytes_of ?d2, stdout = [], stderr = []\<rparr>"
  have r1: "ascii_strict (stdin ?w1) = Inr ?d1" by (simp add: ascii_strict_bytes_of)
  have r2: "ascii_strict (stdin ?w2) = Inr ?d2" by (simp add: ascii_strict_bytes_of)
  have h1: "try_prompt sample_loads ?d1 = JString ?p1"
    by (simp add: try_prompt_def sample_loads_def)
  have h2: "try_prompt sample_loads ?d2 = JString ?p2"
    by (simp add: try_prompt_def sample_loads_def)
  have c1: "\<not> str_contains ''acceptance'' (lower ?p1)" by code_simp
  have c2: "str_contains ''acceptance'' (lower ?p2)" by code_simp
  note t1 = verdict_rule [where stdin_codec = ascii_strict and json_loads = sample_loads
      and w = ?w1 and data = ?d1 and p = ?p1, OF r1 h1, THEN conjunct1]
  note t2 = verdict_rule [where stdin_codec = ascii_strict and json_loads = sample_loads
      and w = ?w2 and data = ?d2 and p = ?p2, OF r2 h2, THEN conjunct1]
  have run1: "prompt_lint ascii_strict sample_loads ?w1
      = (Exit 2, \<lparr>stdin = [], stdout = [], stderr = reminder\<rparr>)"
    using t1 c1 by simp
  have run2: "prompt_lint ascii_strict sample_loads ?w2
      = (Exit 0, \<lparr>stdin = [], stdout = guidance, stderr = []\<rparr>)"
    using t2 c2 by simp
  from r1 have r1': "ascii_strict (bytes_of ?d1) = Inr ?d1" by simp
  from r2 have r2': "ascii_strict (bytes_of ?d2) = Inr ?d2" by simp
  show ?thesis
    by (intro conjI) (rule r1', rule h1, rule run1, rule r2', rule h2, rule run2)
qed

section \<open>Input that is not the expected object\<close>

text \<open>
  C3, at the two bytes \<open>0xFF 0xFE\<close> on standard input. They are not text in the
  encoding of the stream, so \<^verbatim>\<open>sys.stdin.read()\<close> raises
  \<^verbatim>\<open>UnicodeDecodeError\<close> on line 3, before the \<^verbatim>\<open>try\<close>: the failure is
  surfaced, the script writes nothing, and the process status is 1. (Text on which the
  decoder raises is absorbed, lemma \<open>decoder_raises_allowed\<close>.)
\<close>

theorem undecodable_bytes_exit_status:
  "ascii_strict [0xFF, 0xFE] = Inl UnicodeDecodeError
   \<and> prompt_lint ascii_strict sample_loads \<lparr>stdin = [0xFF, 0xFE], stdout = [], stderr = []\<rparr>
      = (Uncaught UnicodeDecodeError, \<lparr>stdin = [], stdout = [], stderr = []\<rparr>)
   \<and> exit_status (fst (prompt_lint ascii_strict sample_loads
        \<lparr>stdin = [0xFF, 0xFE], stdout = [], stderr = []\<rparr>)) = 1"
proof -
  have r: "ascii_strict [0xFF, 0xFE] = Inl UnicodeDecodeError"
    by (simp add: ascii_strict_def)
  then show ?thesis by (simp add: prompt_lint_unreadable)
qed

text \<open>
  C4. When the input decodes to a value that is not an object (\<^verbatim>\<open>obj.get\<close>
  raises inside the \<^verbatim>\<open>try\<close>), or to an object without the key \<open>prompt\<close>
  (the default of \<^verbatim>\<open>get\<close>), the prompt is the empty string and the run is
  allowed with exit status 0; nothing is raised out of the script.
\<close>

theorem wrong_shape_allowed:
  assumes "stdin_codec (stdin w) = Inr data"
    and "json_loads data = Inr obj"
    and "(\<forall>kvs. obj \<noteq> JObject kvs) \<or> (\<exists>kvs. obj = JObject kvs \<and> ''prompt'' \<notin> set (map fst kvs))"
  shows "try_prompt json_loads data = JString []
       \<and> prompt_lint stdin_codec json_loads w
           = (Exit 0, w\<lparr>stdin := [], stdout := stdout w @ guidance\<rparr>)"
proof -
  have p: "try_prompt json_loads data = JString []"
    using assms(3)
  proof
    assume "\<forall>kvs. obj \<noteq> JObject kvs"
    with assms(2) show ?thesis by (rule try_prompt_not_object)
  next
    assume "\<exists>kvs. obj = JObject kvs \<and> ''prompt'' \<notin> set (map fst kvs)"
    then obtain kvs where o: "obj = JObject kvs" and k: "''prompt'' \<notin> set (map fst kvs)"
      by blast
    from k have "map_of kvs ''prompt'' = None" by (simp add: map_of_eq_None_iff)
    with assms(2) o show ?thesis by (simp add: try_prompt_object)
  qed
  from assms(1) p show ?thesis by (simp add: prompt_lint_empty)
qed

theorem wrong_shape_allowed_witness:
  \<open>ascii_strict (bytes_of ''[1, 2]'') = Inr ''[1, 2]''
   \<and> sample_loads ''[1, 2]'' = Inr (JArray [JInt 1, JInt 2])
   \<and> prompt_lint ascii_strict sample_loads
        \<lparr>stdin = bytes_of ''[1, 2]'', stdout = [], stderr = []\<rparr>
       = (Exit 0, \<lparr>stdin = [], stdout = guidance, stderr = []\<rparr>)
   \<and> ascii_strict (bytes_of ''{"cwd": "/tmp"}'') = Inr ''{"cwd": "/tmp"}''
   \<and> sample_loads ''{"cwd": "/tmp"}'' = Inr (JObject [(''cwd'', JString ''/tmp'')])
   \<and> prompt_lint ascii_strict sample_loads
        \<lparr>stdin = bytes_of ''{"cwd": "/tmp"}'', stdout = [], stderr = []\<rparr>
       = (Exit 0, \<lparr>stdin = [], stdout = guidance, stderr = []\<rparr>)\<close>
proof -
  let ?d1 = "''[1, 2]''"
  let ?d2 = \<open>''{"cwd": "/tmp"}''\<close>
  let ?w1 = "\<lparr>stdin = bytes_of ?d1, stdout = [], stderr = []\<rparr>"
  let ?w2 = "\<lparr>stdin = bytes_of ?d2, stdout = [], stderr = []\<rparr>"
  have r1: "ascii_strict (stdin ?w1) = Inr ?d1" by (simp add: ascii_strict_bytes_of)
  have r2: "ascii_strict (stdin ?w2) = Inr ?d2" by (simp add: ascii_strict_bytes_of)
  have h1: "sample_loads ?d1 = Inr (JArray [JInt 1, JInt 2])"
    by (simp add: sample_loads_def)
  have s1: "(\<forall>kvs. JArray [JInt 1, JInt 2] \<noteq> JObject kvs)
      \<or> (\<exists>kvs. JArray [JInt 1, JInt 2] = JObject kvs \<and> ''prompt'' \<notin> set (map fst kvs))"
    by simp
  have h2: "sample_loads ?d2 = Inr (JObject [(''cwd'', JString ''/tmp'')])"
    by (simp add: sample_loads_def)
  have s2: "(\<forall>kvs. JObject [(''cwd'', JString ''/tmp'')] \<noteq> JObject kvs)
      \<or> (\<exists>kvs. JObject [(''cwd'', JString ''/tmp'')] = JObject kvs \<and> ''prompt'' \<notin> set (map fst kvs))"
    by simp
  note t1 = wrong_shape_allowed [where stdin_codec = ascii_strict and json_loads = sample_loads
      and w = ?w1 and data = ?d1, OF r1 h1 s1, THEN conjunct2]
  note t2 = wrong_shape_allowed [where stdin_codec = ascii_strict and json_loads = sample_loads
      and w = ?w2 and data = ?d2, OF r2 h2 s2, THEN conjunct2]
  have run1: "prompt_lint ascii_strict sample_loads ?w1
      = (Exit 0, \<lparr>stdin = [], stdout = guidance, stderr = []\<rparr>)"
    using t1 by simp
  have run2: "prompt_lint ascii_strict sample_loads ?w2
      = (Exit 0, \<lparr>stdin = [], stdout = guidance, stderr = []\<rparr>)"
    using t2 by simp
  from r1 have r1': "ascii_strict (bytes_of ?d1) = Inr ?d1" by simp
  from r2 have r2': "ascii_strict (bytes_of ?d2) = Inr ?d2" by simp
  show ?thesis
    by (intro conjI) (rule r1', rule h1, rule run1, rule r2', rule h2, rule run2)
qed

section \<open>The two effects\<close>

text \<open>
  C6. The run is blocked (the condition of line 10 is true) exactly when it ends with
  \<^verbatim>\<open>sys.exit(2)\<close>, and then it has appended to standard error the literal
  \<^verbatim>\<open>Please include acceptance criteria in your prompt (exit=2 to block).\<close> followed
  by a line feed, and nothing to standard output.
\<close>

theorem blocked_effect:
  "(fst (prompt_lint stdin_codec json_loads w) = Exit 2
      \<longleftrightarrow> (\<exists>data. stdin_codec (stdin w) = Inr data
             \<and> blocked (try_prompt json_loads data) = Inr True))
   \<and> (\<forall>data. stdin_codec (stdin w) = Inr data
          \<and> blocked (try_prompt json_loads data) = Inr True \<longrightarrow>
        prompt_lint stdin_codec json_loads w =
          (Exit 2,
           w\<lparr>stdin := [],
             stderr := stderr w
               @ ''Please include acceptance criteria in your prompt (exit=2 to block).''
               @ [CHR 0x0A]\<rparr>)
        \<and> exit_status (fst (prompt_lint stdin_codec json_loads w)) = 2
        \<and> stdout (snd (prompt_lint stdin_codec json_loads w)) = stdout w)"
proof (cases "stdin_codec (stdin w)")
  case (Inl e)
  then show ?thesis by (simp add: prompt_lint_unreadable)
next
  case (Inr data)
  then show ?thesis by (simp add: prompt_lint_eq reminder_def split: sum.splits)
qed

theorem blocked_effect_witness:
  \<open>ascii_strict (bytes_of ''{"prompt": "Write a function that reverses a string."}'')
      = Inr ''{"prompt": "Write a function that reverses a string."}''
   \<and> blocked (try_prompt sample_loads ''{"prompt": "Write a function that reverses a string."}'')
      = Inr True
   \<and> prompt_lint ascii_strict sample_loads
        \<lparr>stdin = bytes_of ''{"prompt": "Write a function that reverses a string."}'',
         stdout = ''out'', stderr = ''err''\<rparr>
      = (Exit 2,
         \<lparr>stdin = [], stdout = ''out'',
          stderr = ''errPlease include acceptance criteria in your prompt (exit=2 to block).''
                   @ [CHR 0x0A]\<rparr>)\<close>
proof -
  let ?d = \<open>''{"prompt": "Write a function that reverses a string."}''\<close>
  let ?w = "\<lparr>stdin = bytes_of ?d, stdout = ''out'', stderr = ''err''\<rparr>"
  have r: "ascii_strict (stdin ?w) = Inr ?d" by (simp add: ascii_strict_bytes_of)
  have p: "try_prompt sample_loads ?d = JString ''Write a function that reverses a string.''"
    by (simp add: try_prompt_def sample_loads_def)
  have c: "\<not> str_contains ''acceptance'' (lower ''Write a function that reverses a string.'')"
    by code_simp
  have b: "blocked (try_prompt sample_loads ?d) = Inr True"
    by (simp add: p blocked_string c)
  note t = blocked_effect [where stdin_codec = ascii_strict and json_loads = sample_loads
      and w = ?w, THEN conjunct2, rule_format, of ?d, OF conjI, OF r b, THEN conjunct1]
  have run: "prompt_lint ascii_strict sample_loads ?w
      = (Exit 2,
         \<lparr>stdin = [], stdout = ''out'',
          stderr = ''errPlease include acceptance criteria in your prompt (exit=2 to block).''
                   @ [CHR 0x0A]\<rparr>)"
    using t by simp
  from r have r': "ascii_strict (bytes_of ?d) = Inr ?d" by simp
  show ?thesis
    by (intro conjI) (rule r', rule b, rule run)
qed

text \<open>
  C7. The run is allowed (the condition of line 10 is false) exactly when it ends with
  \<^verbatim>\<open>sys.exit(0)\<close>, and then it has appended to standard output the literal
  \<^verbatim>\<open>Consider: objective, constraints, acceptance criteria, and test plan.\<close> with no
  line feed after it, and nothing to standard error.
\<close>

theorem allowed_effect:
  "(fst (prompt_lint stdin_codec json_loads w) = Exit 0
      \<longleftrightarrow> (\<exists>data. stdin_codec (stdin w) = Inr data
             \<and> blocked (try_prompt json_loads data) = Inr False))
   \<and> (\<forall>data. stdin_codec (stdin w) = Inr data
          \<and> blocked (try_prompt json_loads data) = Inr False \<longrightarrow>
        prompt_lint stdin_codec json_loads w =
          (Exit 0,
           w\<lparr>stdin := [],
             stdout := stdout w
               @ ''Consider: objective, constraints, acceptance criteria, and test plan.''\<rparr>)
        \<and> exit_status (fst (prompt_lint stdin_codec json_loads w)) = 0
        \<and> stderr (snd (prompt_lint stdin_codec json_loads w)) = stderr w)"
proof (cases "stdin_codec (stdin w)")
  case (Inl e)
  then show ?thesis by (simp add: prompt_lint_unreadable)
next
  case (Inr data)
  then show ?thesis by (simp add: prompt_lint_eq guidance_def split: sum.splits)
qed

theorem allowed_effect_witness:
  \<open>ascii_strict (bytes_of ''{}'') = Inr ''{}''
   \<and> blocked (try_prompt sample_loads ''{}'') = Inr False
   \<and> prompt_lint ascii_strict sample_loads
        \<lparr>stdin = bytes_of ''{}'', stdout = ''out'', stderr = ''err''\<rparr>
      = (Exit 0,
         \<lparr>stdin = [],
          stdout = ''outConsider: objective, constraints, acceptance criteria, and test plan.'',
          stderr = ''err''\<rparr>)\<close>
proof -
  let ?w = "\<lparr>stdin = bytes_of ''{}'', stdout = ''out'', stderr = ''err''\<rparr>"
  have r: "ascii_strict (stdin ?w) = Inr ''{}''" by (simp add: ascii_strict_bytes_of)
  have p: "try_prompt sample_loads ''{}'' = JString []"
    by (simp add: try_prompt_def sample_loads_def)
  have b: "blocked (try_prompt sample_loads ''{}'') = Inr False"
    by (simp add: p blocked_empty_string)
  note t = allowed_effect [where stdin_codec = ascii_strict and json_loads = sample_loads
      and w = ?w, THEN conjunct2, rule_format, of "''{}''", OF conjI, OF r b, THEN conjunct1]
  have run: "prompt_lint ascii_strict sample_loads ?w
      = (Exit 0,
         \<lparr>stdin = [],
          stdout = ''outConsider: objective, constraints, acceptance criteria, and test plan.'',
          stderr = ''err''\<rparr>)"
    using t by simp
  from r have r': "ascii_strict (bytes_of ''{}'') = Inr ''{}''" by simp
  show ?thesis
    by (intro conjI) (rule r', rule b, rule run)
qed

section \<open>A prompt that is not a string\<close>

text \<open>
  C5, as the script behaves. When the decoder returns an object whose key \<open>prompt\<close>
  holds a value \<open>v\<close> that is not a string, the extraction yields \<open>v\<close>, not the empty
  string. If \<open>v\<close> is the empty array or the empty object, \<^verbatim>\<open>len\<close> is 0, the
  operator \<^verbatim>\<open>and\<close> stops there, and the run is allowed. For every other \<open>v\<close>
  the condition raises (\<^verbatim>\<open>TypeError\<close> from \<^verbatim>\<open>len\<close> on
  \<^verbatim>\<open>None\<close>, a boolean or a number, \<^verbatim>\<open>AttributeError\<close> from
  \<^verbatim>\<open>lower\<close> on a non-empty array or object); nothing catches it, the script
  writes to neither stream, and the process status is 1.
\<close>

theorem non_string_prompt:
  assumes "stdin_codec (stdin w) = Inr data"
    and "json_loads data = Inr (JObject kvs)"
    and "map_of kvs ''prompt'' = Some v"
    and "\<forall>s. v \<noteq> JString s"
  shows "try_prompt json_loads data = v
       \<and> (v = JArray [] \<or> v = JObject [] \<longrightarrow>
            prompt_lint stdin_codec json_loads w =
              (Exit 0, w\<lparr>stdin := [], stdout := stdout w @ guidance\<rparr>))
       \<and> (v \<noteq> JArray [] \<and> v \<noteq> JObject [] \<longrightarrow>
            (prompt_lint stdin_codec json_loads w = (Uncaught TypeError, w\<lparr>stdin := []\<rparr>)
             \<or> prompt_lint stdin_codec json_loads w
                 = (Uncaught AttributeError, w\<lparr>stdin := []\<rparr>))
            \<and> exit_status (fst (prompt_lint stdin_codec json_loads w)) = 1
            \<and> stdout (snd (prompt_lint stdin_codec json_loads w)) = stdout w
            \<and> stderr (snd (prompt_lint stdin_codec json_loads w)) = stderr w)"
proof -
  have p: "try_prompt json_loads data = v"
    using assms(2,3) by (simp add: try_prompt_object)
  have b: "blocked (try_prompt json_loads data) =
     (if v = JArray [] \<or> v = JObject [] then Inr False
      else if (\<exists>xs. v = JArray xs) \<or> (\<exists>kvs. v = JObject kvs) then Inl AttributeError
      else Inl TypeError)"
    unfolding p using assms(4) by (rule blocked_not_string)
  have run: "prompt_lint stdin_codec json_loads w =
     (case blocked (try_prompt json_loads data) of
        Inl e \<Rightarrow> (Uncaught e, w\<lparr>stdin := []\<rparr>)
      | Inr b \<Rightarrow>
          if b then (Exit 2, w\<lparr>stdin := [], stderr := stderr w @ reminder\<rparr>)
          else (Exit 0, w\<lparr>stdin := [], stdout := stdout w @ guidance\<rparr>))"
    using assms(1) by (rule prompt_lint_eq)
  show ?thesis
    unfolding run b using p by simp
qed

theorem non_string_prompt_witness:
  \<open>ascii_strict (bytes_of ''{"prompt": null}'') = Inr ''{"prompt": null}''
   \<and> sample_loads ''{"prompt": null}'' = Inr (JObject [(''prompt'', JNull)])
   \<and> try_prompt sample_loads ''{"prompt": null}'' = JNull
   \<and> prompt_lint ascii_strict sample_loads
        \<lparr>stdin = bytes_of ''{"prompt": null}'', stdout = [], stderr = []\<rparr>
      = (Uncaught TypeError, \<lparr>stdin = [], stdout = [], stderr = []\<rparr>)
   \<and> ascii_strict (bytes_of ''{"prompt": ["a"]}'') = Inr ''{"prompt": ["a"]}''
   \<and> sample_loads ''{"prompt": ["a"]}'' = Inr (JObject [(''prompt'', JArray [JString ''a''])])
   \<and> prompt_lint ascii_strict sample_loads
        \<lparr>stdin = bytes_of ''{"prompt": ["a"]}'', stdout = [], stderr = []\<rparr>
      = (Uncaught AttributeError, \<lparr>stdin = [], stdout = [], stderr = []\<rparr>)\<close>
proof -
  let ?d1 = \<open>''{"prompt": null}''\<close>
  let ?d2 = \<open>''{"prompt": ["a"]}''\<close>
  let ?w1 = "\<lparr>stdin = bytes_of ?d1, stdout = [], stderr = []\<rparr>"
  let ?w2 = "\<lparr>stdin = bytes_of ?d2, stdout = [], stderr = []\<rparr>"
  have r1: "ascii_strict (stdin ?w1) = Inr ?d1" by (simp add: ascii_strict_bytes_of)
  have r2: "ascii_strict (stdin ?w2) = Inr ?d2" by (simp add: ascii_strict_bytes_of)
  have h1: "sample_loads ?d1 = Inr (JObject [(''prompt'', JNull)])"
    by (simp add: sample_loads_def)
  have h2: "sample_loads ?d2 = Inr (JObject [(''prompt'', JArray [JString ''a''])])"
    by (simp add: sample_loads_def)
  have m1: "map_of [(''prompt'', JNull)] ''prompt'' = Some JNull" by simp
  have m2: "map_of [(''prompt'', JArray [JString ''a''])] ''prompt'' = Some (JArray [JString ''a''])"
    by simp
  have n1: "\<forall>s. JNull \<noteq> JString s" by simp
  have n2: "\<forall>s. JArray [JString ''a''] \<noteq> JString s" by simp
  have e1: "blocked JNull = Inl TypeError" by (simp add: blocked_def)
  have e2: "blocked (JArray [JString ''a'']) = Inl AttributeError" by (simp add: blocked_def)
  note t1 = non_string_prompt [where stdin_codec = ascii_strict and json_loads = sample_loads
      and w = ?w1 and data = ?d1 and kvs = "[(''prompt'', JNull)]" and v = JNull,
      OF r1 h1 m1 n1]
  note t2 = non_string_prompt [where stdin_codec = ascii_strict and json_loads = sample_loads
      and w = ?w2 and data = ?d2 and kvs = "[(''prompt'', JArray [JString ''a''])]"
      and v = "JArray [JString ''a'']", OF r2 h2 m2 n2]
  have p1: "try_prompt sample_loads ?d1 = JNull" by (rule t1 [THEN conjunct1])
  have x1: "prompt_lint ascii_strict sample_loads ?w1 \<noteq> (Uncaught AttributeError, ?w1\<lparr>stdin := []\<rparr>)"
    using r1 h1 by (simp add: prompt_lint_eq try_prompt_object e1)
  have x2: "prompt_lint ascii_strict sample_loads ?w2 \<noteq> (Uncaught TypeError, ?w2\<lparr>stdin := []\<rparr>)"
    using r2 h2 by (simp add: prompt_lint_eq try_prompt_object e2)
  have run1: "prompt_lint ascii_strict sample_loads ?w1
      = (Uncaught TypeError, \<lparr>stdin = [], stdout = [], stderr = []\<rparr>)"
    using t1 [THEN conjunct2, THEN conjunct2] x1 by simp
  have run2: "prompt_lint ascii_strict sample_loads ?w2
      = (Uncaught AttributeError, \<lparr>stdin = [], stdout = [], stderr = []\<rparr>)"
    using t2 [THEN conjunct2, THEN conjunct2] x2 by simp
  from r1 have r1': "ascii_strict (bytes_of ?d1) = Inr ?d1" by simp
  from r2 have r2': "ascii_strict (bytes_of ?d2) = Inr ?d2" by simp
  show ?thesis
    by (intro conjI) (rule r1', rule h1, rule p1, rule run1, rule r2', rule h2, rule run2)
qed

text \<open>
  The claim as first stated, for every JSON object input whose \<open>prompt\<close> is not a
  string, fails at two inputs. At \<^verbatim>\<open>{"prompt": []}\<close> the prompt is the empty
  list, and the run writes the guidance and exits with status 0. At an object whose
  \<open>prompt\<close> is an integer literal of 4301 digits the decoder raises, the handler makes
  the prompt the empty string, and the run again writes the guidance and exits with
  status 0.
\<close>

theorem non_string_prompt_counterexample:
  \<open>ascii_strict (bytes_of ''{"prompt": []}'') = Inr ''{"prompt": []}''
   \<and> sample_loads ''{"prompt": []}'' = Inr (JObject [(''prompt'', JArray [])])
   \<and> map_of [(''prompt'', JArray [])] ''prompt'' = Some (JArray [])
   \<and> try_prompt sample_loads ''{"prompt": []}'' = JArray []
   \<and> prompt_lint ascii_strict sample_loads
        \<lparr>stdin = bytes_of ''{"prompt": []}'', stdout = [], stderr = []\<rparr>
      = (Exit 0,
         \<lparr>stdin = [],
          stdout = ''Consider: objective, constraints, acceptance criteria, and test plan.'',
          stderr = []\<rparr>)
   \<and> exit_status (fst (prompt_lint ascii_strict sample_loads
        \<lparr>stdin = bytes_of ''{"prompt": []}'', stdout = [], stderr = []\<rparr>)) = 0
   \<and> length (''1'' @ digits) = 4301
   \<and> ascii_strict (bytes_of (''{"prompt":1'' @ digits @ ''}''))
      = Inr (''{"prompt":1'' @ digits @ ''}'')
   \<and> sample_loads (''{"prompt":1'' @ digits @ ''}'') = Inl ValueError
   \<and> try_prompt sample_loads (''{"prompt":1'' @ digits @ ''}'') = JString []
   \<and> prompt_lint ascii_strict sample_loads
        \<lparr>stdin = bytes_of (''{"prompt":1'' @ digits @ ''}''), stdout = [], stderr = []\<rparr>
      = (Exit 0,
         \<lparr>stdin = [],
          stdout = ''Consider: objective, constraints, acceptance criteria, and test plan.'',
          stderr = []\<rparr>)\<close>
proof -
  let ?d1 = \<open>''{"prompt": []}''\<close>
  let ?d2 = \<open>''{"prompt":1'' @ digits @ ''}''\<close>
  let ?w1 = "\<lparr>stdin = bytes_of ?d1, stdout = [], stderr = []\<rparr>"
  let ?w2 = "\<lparr>stdin = bytes_of ?d2, stdout = [], stderr = []\<rparr>"
  let ?done = "(Exit 0,
         \<lparr>stdin = [],
          stdout = ''Consider: objective, constraints, acceptance criteria, and test plan.'',
          stderr = []\<rparr>)"
  have r1: "ascii_strict (bytes_of ?d1) = Inr ?d1" by (simp add: ascii_strict_bytes_of)
  have r2: "ascii_strict (bytes_of ?d2) = Inr ?d2"
    by (rule ascii_strict_bytes_of) (simp add: digits_def list_all_iff)
  have h1: "sample_loads ?d1 = Inr (JObject [(''prompt'', JArray [])])"
    by (simp add: sample_loads_def)
  have h2: "sample_loads ?d2 = Inl ValueError"
    by (simp add: sample_loads_def)
  have m1: "map_of [(''prompt'', JArray [])] ''prompt'' = Some (JArray [])" by simp
  have p1: "try_prompt sample_loads ?d1 = JArray []"
    using h1 by (simp add: try_prompt_object)
  have p2: "try_prompt sample_loads ?d2 = JString []"
    using h2 by (rule try_prompt_raises)
  have b: "blocked (JArray []) = Inr False" by (simp add: blocked_def)
  have run1: "prompt_lint ascii_strict sample_loads ?w1 = ?done"
    using r1 p1 by (simp add: prompt_lint_eq b guidance_def)
  have run2: "prompt_lint ascii_strict sample_loads ?w2 = ?done"
    using r2 p2 by (simp add: prompt_lint_eq blocked_empty_string guidance_def)
  have s1: "exit_status (fst (prompt_lint ascii_strict sample_loads ?w1)) = 0"
    by (simp add: run1)
  have n: "length (''1'' @ digits) = 4301" by (simp add: digits_def)
  show ?thesis
    by (intro conjI)
      (rule r1, rule h1, rule m1, rule p1, rule run1, rule s1, rule n, rule r2, rule h2,
        rule p2, rule run2)
qed

section \<open>What the run depends on\<close>

text \<open>
  C9, as the script behaves. Two inputs that the decoder turns into objects whose
  \<open>prompt\<close> fields hold the same string end the same way, with the same exit status,
  and append the same text to the same stream, whatever else the objects hold; started from
  the same process state the two runs are equal. An object whose \<open>prompt\<close> is absent or
  the empty string is allowed, whatever its other fields. An input on which the decoder
  raises is allowed as well, whatever it holds: the handler makes the prompt the empty
  string.
\<close>

theorem other_fields_ignored:
  assumes "stdin_codec (stdin w1) = Inr d1"
    and "stdin_codec (stdin w2) = Inr d2"
    and "json_loads d1 = Inr (JObject kvs1)"
    and "json_loads d2 = Inr (JObject kvs2)"
    and "map_of kvs1 ''prompt'' = Some (JString p)"
    and "map_of kvs2 ''prompt'' = Some (JString p)"
  shows "fst (prompt_lint stdin_codec json_loads w1) = fst (prompt_lint stdin_codec json_loads w2)
       \<and> exit_status (fst (prompt_lint stdin_codec json_loads w1))
           = exit_status (fst (prompt_lint stdin_codec json_loads w2))
       \<and> (\<exists>out err.
             snd (prompt_lint stdin_codec json_loads w1)
               = w1\<lparr>stdin := [], stdout := stdout w1 @ out, stderr := stderr w1 @ err\<rparr>
           \<and> snd (prompt_lint stdin_codec json_loads w2)
               = w2\<lparr>stdin := [], stdout := stdout w2 @ out, stderr := stderr w2 @ err\<rparr>)
       \<and> (stdout w1 = stdout w2 \<and> stderr w1 = stderr w2 \<and> proc.more w1 = proc.more w2 \<longrightarrow>
             prompt_lint stdin_codec json_loads w1 = prompt_lint stdin_codec json_loads w2)
       \<and> (\<forall>w data kvs. stdin_codec (stdin w) = Inr data
             \<and> json_loads data = Inr (JObject kvs)
             \<and> (map_of kvs ''prompt'' = None \<or> map_of kvs ''prompt'' = Some (JString [])) \<longrightarrow>
             prompt_lint stdin_codec json_loads w
               = (Exit 0, (w :: 'a proc_scheme)\<lparr>stdin := [], stdout := stdout w @ guidance\<rparr>))
       \<and> (\<forall>w data e. stdin_codec (stdin w) = Inr data \<and> json_loads data = Inl e \<longrightarrow>
             prompt_lint stdin_codec json_loads w
               = (Exit 0, (w :: 'a proc_scheme)\<lparr>stdin := [], stdout := stdout w @ guidance\<rparr>))"
proof -
  have p: "try_prompt json_loads d1 = try_prompt json_loads d2"
    using assms(3-6) by (simp add: try_prompt_object)
  have r: "(case stdin_codec (stdin w1) of Inl e \<Rightarrow> Inl e
            | Inr data \<Rightarrow> blocked (try_prompt json_loads data))
         = (case stdin_codec (stdin w2) of Inl e \<Rightarrow> Inl e
            | Inr data \<Rightarrow> blocked (try_prompt json_loads data))"
    by (simp add: assms(1,2) p)
  have o: "fst (prompt_lint stdin_codec json_loads w1) = fst (prompt_lint stdin_codec json_loads w2)"
    by (simp add: prompt_lint_effects Let_def r)
  from o have e: "exit_status (fst (prompt_lint stdin_codec json_loads w1))
           = exit_status (fst (prompt_lint stdin_codec json_loads w2))"
    by simp
  have written: "\<exists>out err.
             snd (prompt_lint stdin_codec json_loads w1)
               = w1\<lparr>stdin := [], stdout := stdout w1 @ out, stderr := stderr w1 @ err\<rparr>
           \<and> snd (prompt_lint stdin_codec json_loads w2)
               = w2\<lparr>stdin := [], stdout := stdout w2 @ out, stderr := stderr w2 @ err\<rparr>"
    unfolding prompt_lint_effects Let_def r snd_conv by blast
  have same: "prompt_lint stdin_codec json_loads w1 = prompt_lint stdin_codec json_loads w2"
    if "stdout w1 = stdout w2 \<and> stderr w1 = stderr w2 \<and> proc.more w1 = proc.more w2"
    using that by (simp add: prompt_lint_effects Let_def r)
  have absent: "prompt_lint stdin_codec json_loads w
               = (Exit 0, w\<lparr>stdin := [], stdout := stdout w @ guidance\<rparr>)"
    if "stdin_codec (stdin w) = Inr data \<and> json_loads data = Inr (JObject kvs)
        \<and> (map_of kvs ''prompt'' = None \<or> map_of kvs ''prompt'' = Some (JString []))"
    for w :: "'a proc_scheme" and data kvs
  proof -
    from that have "try_prompt json_loads data = JString []"
      by (auto simp: try_prompt_object)
    with that show ?thesis by (simp add: prompt_lint_empty)
  qed
  have raised: "prompt_lint stdin_codec json_loads w
               = (Exit 0, w\<lparr>stdin := [], stdout := stdout w @ guidance\<rparr>)"
    if "stdin_codec (stdin w) = Inr data \<and> json_loads data = Inl e"
    for w :: "'a proc_scheme" and data e
    using that by (simp add: decoder_raises_allowed)
  show ?thesis
    by (intro conjI allI impI)
      (rule o, rule e, rule written, erule same, erule absent, erule raised)
qed

theorem other_fields_ignored_witness:
  \<open>sample_loads ''{"prompt": "Fix it. ACCEPTANCE CRITERIA: tests pass", "cwd": "/tmp"}''
      = Inr (JObject [(''prompt'', JString ''Fix it. ACCEPTANCE CRITERIA: tests pass''),
                      (''cwd'', JString ''/tmp'')])
   \<and> sample_loads ''{"prompt": "Fix it. ACCEPTANCE CRITERIA: tests pass"}''
      = Inr (JObject [(''prompt'', JString ''Fix it. ACCEPTANCE CRITERIA: tests pass'')])
   \<and> prompt_lint ascii_strict sample_loads
        \<lparr>stdin = bytes_of
           ''{"prompt": "Fix it. ACCEPTANCE CRITERIA: tests pass", "cwd": "/tmp"}'',
         stdout = [], stderr = []\<rparr>
      = prompt_lint ascii_strict sample_loads
        \<lparr>stdin = bytes_of ''{"prompt": "Fix it. ACCEPTANCE CRITERIA: tests pass"}'',
         stdout = [], stderr = []\<rparr>
   \<and> sample_loads ''{"cwd": "/tmp"}'' = Inr (JObject [(''cwd'', JString ''/tmp'')])
   \<and> prompt_lint ascii_strict sample_loads
        \<lparr>stdin = bytes_of ''{"cwd": "/tmp"}'', stdout = [], stderr = []\<rparr>
      = (Exit 0, \<lparr>stdin = [], stdout = guidance, stderr = []\<rparr>)
   \<and> sample_loads ''not valid json'' = Inl JSONDecodeError
   \<and> prompt_lint ascii_strict sample_loads
        \<lparr>stdin = bytes_of ''not valid json'', stdout = [], stderr = []\<rparr>
      = (Exit 0, \<lparr>stdin = [], stdout = guidance, stderr = []\<rparr>)\<close>
proof -
  let ?p = "''Fix it. ACCEPTANCE CRITERIA: tests pass''"
  let ?d1 = \<open>''{"prompt": "Fix it. ACCEPTANCE CRITERIA: tests pass", "cwd": "/tmp"}''\<close>
  let ?d2 = \<open>''{"prompt": "Fix it. ACCEPTANCE CRITERIA: tests pass"}''\<close>
  let ?d3 = \<open>''{"cwd": "/tmp"}''\<close>
  let ?d4 = "''not valid json''"
  let ?w1 = "\<lparr>stdin = bytes_of ?d1, stdout = [], stderr = []\<rparr>"
  let ?w2 = "\<lparr>stdin = bytes_of ?d2, stdout = [], stderr = []\<rparr>"
  let ?w3 = "\<lparr>stdin = bytes_of ?d3, stdout = [], stderr = []\<rparr>"
  let ?w4 = "\<lparr>stdin = bytes_of ?d4, stdout = [], stderr = []\<rparr>"
  let ?k1 = "[(''prompt'', JString ?p), (''cwd'', JString ''/tmp'')]"
  let ?k2 = "[(''prompt'', JString ?p)]"
  have r1: "ascii_strict (stdin ?w1) = Inr ?d1" by (simp add: ascii_strict_bytes_of)
  have r2: "ascii_strict (stdin ?w2) = Inr ?d2" by (simp add: ascii_strict_bytes_of)
  have r3: "ascii_strict (stdin ?w3) = Inr ?d3" by (simp add: ascii_strict_bytes_of)
  have r4: "ascii_strict (stdin ?w4) = Inr ?d4" by (simp add: ascii_strict_bytes_of)
  have h1: "sample_loads ?d1 = Inr (JObject ?k1)" by (simp add: sample_loads_def)
  have h2: "sample_loads ?d2 = Inr (JObject ?k2)" by (simp add: sample_loads_def)
  have h3: "sample_loads ?d3 = Inr (JObject [(''cwd'', JString ''/tmp'')])"
    by (simp add: sample_loads_def)
  have h4: "sample_loads ?d4 = Inl JSONDecodeError" by (simp add: sample_loads_def)
  have m1: "map_of ?k1 ''prompt'' = Some (JString ?p)" by simp
  have m2: "map_of ?k2 ''prompt'' = Some (JString ?p)" by simp
  have m3: "map_of [(''cwd'', JString ''/tmp'')] ''prompt'' = None" by simp
  note t = other_fields_ignored [where stdin_codec = ascii_strict and json_loads = sample_loads
      and ?w1.0 = ?w1 and ?w2.0 = ?w2 and ?d1.0 = ?d1 and ?d2.0 = ?d2
      and ?kvs1.0 = ?k1 and ?kvs2.0 = ?k2 and p = ?p, OF r1 r2 h1 h2 m1 m2]
  note d = t [THEN conjunct2, THEN conjunct2, THEN conjunct2, THEN conjunct1, THEN mp]
  note a = t [THEN conjunct2, THEN conjunct2, THEN conjunct2, THEN conjunct2, THEN conjunct1,
      rule_format]
  note x = t [THEN conjunct2, THEN conjunct2, THEN conjunct2, THEN conjunct2, THEN conjunct2,
      rule_format]
  have same: "prompt_lint ascii_strict sample_loads ?w1 = prompt_lint ascii_strict sample_loads ?w2"
    by (rule d) simp
  have absent: "prompt_lint ascii_strict sample_loads ?w3
      = (Exit 0, ?w3\<lparr>stdin := [], stdout := stdout ?w3 @ guidance\<rparr>)"
    by (rule a [where data = ?d3 and kvs = "[(''cwd'', JString ''/tmp'')]"])
      (intro conjI disjI1 r3 h3 m3)
  have raised: "prompt_lint ascii_strict sample_loads ?w4
      = (Exit 0, ?w4\<lparr>stdin := [], stdout := stdout ?w4 @ guidance\<rparr>)"
    by (rule x [where data = ?d4 and e = JSONDecodeError]) (intro conjI r4 h4)
  have run3: "prompt_lint ascii_strict sample_loads ?w3
      = (Exit 0, \<lparr>stdin = [], stdout = guidance, stderr = []\<rparr>)"
    using absent by simp
  have run4: "prompt_lint ascii_strict sample_loads ?w4
      = (Exit 0, \<lparr>stdin = [], stdout = guidance, stderr = []\<rparr>)"
    using raised by simp
  show ?thesis
    by (intro conjI) (rule h1, rule h2, rule same, rule h3, rule run3, rule h4, rule run4)
qed

text \<open>
  The claim as first stated, for every pair of JSON object inputs, fails at the pair
  \<^verbatim>\<open>{"prompt": "hi"}\<close> and \<^verbatim>\<open>{"n": 1...1, "prompt": "hi"}\<close> with an
  integer literal of 4301 digits in the field \<open>n\<close>. Both are JSON objects whose
  \<open>prompt\<close> is \<open>hi\<close>. The first is blocked. On the second the decoder raises
  \<^verbatim>\<open>ValueError\<close>, the handler makes the prompt the empty string, and the run is
  allowed: the content of another field has changed the verdict.
\<close>

theorem other_fields_ignored_counterexample:
  \<open>ascii_strict (bytes_of ''{"prompt": "hi"}'') = Inr ''{"prompt": "hi"}''
   \<and> sample_loads ''{"prompt": "hi"}'' = Inr (JObject [(''prompt'', JString ''hi'')])
   \<and> prompt_lint ascii_strict sample_loads
        \<lparr>stdin = bytes_of ''{"prompt": "hi"}'', stdout = [], stderr = []\<rparr>
      = (Exit 2, \<lparr>stdin = [], stdout = [], stderr = reminder\<rparr>)
   \<and> length (''1'' @ digits) = 4301
   \<and> ascii_strict (bytes_of (''{"n": 1'' @ digits @ '', "prompt": "hi"}''))
      = Inr (''{"n": 1'' @ digits @ '', "prompt": "hi"}'')
   \<and> sample_loads (''{"n": 1'' @ digits @ '', "prompt": "hi"}'') = Inl ValueError
   \<and> prompt_lint ascii_strict sample_loads
        \<lparr>stdin = bytes_of (''{"n": 1'' @ digits @ '', "prompt": "hi"}''),
         stdout = [], stderr = []\<rparr>
      = (Exit 0, \<lparr>stdin = [], stdout = guidance, stderr = []\<rparr>)\<close>
proof -
  let ?d1 = \<open>''{"prompt": "hi"}''\<close>
  let ?d2 = \<open>''{"n": 1'' @ digits @ '', "prompt": "hi"}''\<close>
  let ?w1 = "\<lparr>stdin = bytes_of ?d1, stdout = [], stderr = []\<rparr>"
  let ?w2 = "\<lparr>stdin = bytes_of ?d2, stdout = [], stderr = []\<rparr>"
  have r1: "ascii_strict (bytes_of ?d1) = Inr ?d1" by (simp add: ascii_strict_bytes_of)
  have r2: "ascii_strict (bytes_of ?d2) = Inr ?d2"
    by (rule ascii_strict_bytes_of) (simp add: digits_def list_all_iff)
  have h1: "sample_loads ?d1 = Inr (JObject [(''prompt'', JString ''hi'')])"
    by (simp add: sample_loads_def)
  have h2: "sample_loads ?d2 = Inl ValueError"
    by (simp add: sample_loads_def)
  have c: "\<not> str_contains ''acceptance'' (lower ''hi'')" by code_simp
  have p1: "try_prompt sample_loads ?d1 = JString ''hi''"
    using h1 by (simp add: try_prompt_object)
  have p2: "try_prompt sample_loads ?d2 = JString []"
    using h2 by (rule try_prompt_raises)
  have run1: "prompt_lint ascii_strict sample_loads ?w1
      = (Exit 2, \<lparr>stdin = [], stdout = [], stderr = reminder\<rparr>)"
    using r1 p1 c by (simp add: prompt_lint_eq blocked_string)
  have run2: "prompt_lint ascii_strict sample_loads ?w2
      = (Exit 0, \<lparr>stdin = [], stdout = guidance, stderr = []\<rparr>)"
    using r2 p2 by (simp add: prompt_lint_eq blocked_empty_string)
  have n: "length (''1'' @ digits) = 4301" by (simp add: digits_def)
  show ?thesis
    by (intro conjI) (rule r1, rule h1, rule run1, rule n, rule r2, rule h2, rule run2)
qed

text \<open>
  C10. The run is a function of the bytes on standard input alone: two runs on the same
  input end the same way and append the same text to each stream, whatever the streams
  held before and whatever else the process state holds; running again after the first run,
  on the same input, ends the same way.
\<close>

theorem deterministic:
  assumes "stdin w1 = stdin w2"
  shows "fst (prompt_lint stdin_codec json_loads w1) = fst (prompt_lint stdin_codec json_loads w2)
       \<and> exit_status (fst (prompt_lint stdin_codec json_loads w1))
           = exit_status (fst (prompt_lint stdin_codec json_loads w2))
       \<and> (\<exists>out err.
             snd (prompt_lint stdin_codec json_loads w1)
               = w1\<lparr>stdin := [], stdout := stdout w1 @ out, stderr := stderr w1 @ err\<rparr>
           \<and> snd (prompt_lint stdin_codec json_loads w2)
               = w2\<lparr>stdin := [], stdout := stdout w2 @ out, stderr := stderr w2 @ err\<rparr>)
       \<and> fst (prompt_lint stdin_codec json_loads
                (snd (prompt_lint stdin_codec json_loads w1)\<lparr>stdin := stdin w1\<rparr>))
           = fst (prompt_lint stdin_codec json_loads w1)"
proof -
  have o: "fst (prompt_lint stdin_codec json_loads w1) = fst (prompt_lint stdin_codec json_loads w2)"
    by (simp add: prompt_lint_effects Let_def assms)
  then have e: "exit_status (fst (prompt_lint stdin_codec json_loads w1))
           = exit_status (fst (prompt_lint stdin_codec json_loads w2))"
    by simp
  have written: "\<exists>out err.
             snd (prompt_lint stdin_codec json_loads w1)
               = w1\<lparr>stdin := [], stdout := stdout w1 @ out, stderr := stderr w1 @ err\<rparr>
           \<and> snd (prompt_lint stdin_codec json_loads w2)
               = w2\<lparr>stdin := [], stdout := stdout w2 @ out, stderr := stderr w2 @ err\<rparr>"
    unfolding prompt_lint_effects Let_def assms snd_conv by blast
  have again: "fst (prompt_lint stdin_codec json_loads
                (snd (prompt_lint stdin_codec json_loads w1)\<lparr>stdin := stdin w1\<rparr>))
           = fst (prompt_lint stdin_codec json_loads w1)"
    by (simp add: prompt_lint_effects Let_def)
  show ?thesis
    by (intro conjI) (rule o, rule e, rule written, rule again)
qed

theorem deterministic_witness:
  \<open>stdin \<lparr>stdin = bytes_of ''{"prompt": ""}'', stdout = ''earlier'', stderr = []\<rparr>
      = stdin \<lparr>stdin = bytes_of ''{"prompt": ""}'', stdout = [], stderr = ''noise''\<rparr>
   \<and> fst (prompt_lint ascii_strict sample_loads
        \<lparr>stdin = bytes_of ''{"prompt": ""}'', stdout = ''earlier'', stderr = []\<rparr>)
      = fst (prompt_lint ascii_strict sample_loads
        \<lparr>stdin = bytes_of ''{"prompt": ""}'', stdout = [], stderr = ''noise''\<rparr>)
   \<and> exit_status (fst (prompt_lint ascii_strict sample_loads
        \<lparr>stdin = bytes_of ''{"prompt": ""}'', stdout = ''earlier'', stderr = []\<rparr>))
      = exit_status (fst (prompt_lint ascii_strict sample_loads
        \<lparr>stdin = bytes_of ''{"prompt": ""}'', stdout = [], stderr = ''noise''\<rparr>))\<close>
proof -
  let ?w1 = \<open>\<lparr>stdin = bytes_of ''{"prompt": ""}'', stdout = ''earlier'', stderr = []\<rparr>\<close>
  let ?w2 = \<open>\<lparr>stdin = bytes_of ''{"prompt": ""}'', stdout = [], stderr = ''noise''\<rparr>\<close>
  have h: "stdin ?w1 = stdin ?w2" by simp
  note t = deterministic [where stdin_codec = ascii_strict and json_loads = sample_loads
      and ?w1.0 = ?w1 and ?w2.0 = ?w2, OF h]
  show ?thesis
    by (intro conjI) (rule h, rule t [THEN conjunct1], rule t [THEN conjunct2, THEN conjunct1])
qed

section \<open>Where the script raises\<close>

text \<open>
  C2, at the input \<^verbatim>\<open>{"prompt": null}\<close>. The prompt is \<^verbatim>\<open>None\<close>,
  \<^verbatim>\<open>len(None)\<close> raises \<^verbatim>\<open>TypeError\<close> on line 10, outside the
  \<^verbatim>\<open>try\<close>, and the process status is 1, neither 0 nor 2.
\<close>

theorem null_prompt_exit_status:
  \<open>ascii_strict (bytes_of ''{"prompt": null}'') = Inr ''{"prompt": null}''
   \<and> sample_loads ''{"prompt": null}'' = Inr (JObject [(''prompt'', JNull)])
   \<and> prompt_lint ascii_strict sample_loads
        \<lparr>stdin = bytes_of ''{"prompt": null}'', stdout = [], stderr = []\<rparr>
      = (Uncaught TypeError, \<lparr>stdin = [], stdout = [], stderr = []\<rparr>)
   \<and> exit_status (fst (prompt_lint ascii_strict sample_loads
        \<lparr>stdin = bytes_of ''{"prompt": null}'', stdout = [], stderr = []\<rparr>)) = 1\<close>
proof -
  have r: \<open>ascii_strict (bytes_of ''{"prompt": null}'') = Inr ''{"prompt": null}''\<close>
    by (simp add: ascii_strict_bytes_of)
  have h: \<open>sample_loads ''{"prompt": null}'' = Inr (JObject [(''prompt'', JNull)])\<close>
    by (simp add: sample_loads_def)
  have b: "blocked JNull = Inl TypeError" by (simp add: blocked_def)
  show ?thesis
    using r h by (simp add: prompt_lint_eq try_prompt_object b)
qed

text \<open>
  C8, at the input \<^verbatim>\<open>{"prompt": 5}\<close>. The run produces neither of the two
  effects: it ends with an uncaught \<^verbatim>\<open>TypeError\<close>, and the script has written
  nothing to standard output and nothing to standard error.
\<close>

theorem number_prompt_neither_effect:
  \<open>ascii_strict (bytes_of ''{"prompt": 5}'') = Inr ''{"prompt": 5}''
   \<and> sample_loads ''{"prompt": 5}'' = Inr (JObject [(''prompt'', JInt 5)])
   \<and> fst (prompt_lint ascii_strict sample_loads
        \<lparr>stdin = bytes_of ''{"prompt": 5}'', stdout = ''out'', stderr = ''err''\<rparr>)
      = Uncaught TypeError
   \<and> stdout (snd (prompt_lint ascii_strict sample_loads
        \<lparr>stdin = bytes_of ''{"prompt": 5}'', stdout = ''out'', stderr = ''err''\<rparr>)) = ''out''
   \<and> stderr (snd (prompt_lint ascii_strict sample_loads
        \<lparr>stdin = bytes_of ''{"prompt": 5}'', stdout = ''out'', stderr = ''err''\<rparr>)) = ''err''\<close>
proof -
  have r: \<open>ascii_strict (bytes_of ''{"prompt": 5}'') = Inr ''{"prompt": 5}''\<close>
    by (simp add: ascii_strict_bytes_of)
  have h: \<open>sample_loads ''{"prompt": 5}'' = Inr (JObject [(''prompt'', JInt 5)])\<close>
    by (simp add: sample_loads_def)
  have b: "blocked (JInt 5) = Inl TypeError" by (simp add: blocked_def)
  show ?thesis
    using r h by (simp add: prompt_lint_eq try_prompt_object b)
qed

end
